theory Spec2Isabelle
  imports
    Main
    "HOL-Library.AList"
    "HOL-Library.Char_ord"
    "HOL-Library.List_Lexorder"
    "HOL-Library.Word"
begin

section \<open>The extensible package: option dictionaries and the extension registry\<close>

text \<open>
  A shallow embedding of \<^verbatim>\<open>extensible/options.py\<close>, \<^verbatim>\<open>extensible/errors.py\<close> and the
  registry of \<^verbatim>\<open>extensible/extensible.py\<close>.

  Python strings are \<^typ>\<open>string\<close>; Python's ordering on strings (by code point, a proper
  prefix first) is the lexicographic order on character lists. A Python \<^verbatim>\<open>dict\<close> is an
  association list in insertion order, written with \<^const>\<open>AList.update\<close> (an existing
  key keeps its place and gets the new value, a new key goes to the end) and read with
  \<^const>\<open>map_of\<close>. An exception is the \<open>Inl\<close> of a sum.
\<close>

subsection \<open>Values and errors\<close>

text \<open>
  \<^verbatim>\<open>OptionValue = Union[str, float, bool, int]\<close>. A float is its IEEE 754 binary64 bit
  pattern. \<open>OtherV\<close> stands for a value of any other Python type: the annotations exclude
  it, the \<^verbatim>\<open>isinstance\<close> chains of the coercions end in a branch for it.
\<close>

datatype OptionValue = StrV string | FloatV "64 word" | BoolV bool | IntV int | OtherV

text \<open>
  The exceptions of \<^verbatim>\<open>errors.py\<close> with their message, \<^verbatim>\<open>ValueError\<close> with its argument
  (\<open>None\<close> for the bare \<^verbatim>\<open>raise ValueError\<close>), the \<^verbatim>\<open>KeyError\<close> of a subscript, the
  \<^verbatim>\<open>AssertionError\<close> of \<^verbatim>\<open>register\<close>, and \<open>HostError\<close> for whatever else a builtin or an
  import raises.
\<close>

datatype error =
    ValueError "OptionValue option"
  | InternalError string
  | ConfigurationError string
  | OptionRequiredError string
  | KeyError string
  | AssertionError
  | HostError string

text \<open>
  The conversions the coercions delegate to Python's builtins, \<^verbatim>\<open>int(str)\<close>,
  \<^verbatim>\<open>int(float)\<close>, \<^verbatim>\<open>float(int)\<close>, \<^verbatim>\<open>float(str)\<close>, \<^verbatim>\<open>str(int)\<close> and \<^verbatim>\<open>str(float)\<close>, are not code
  of the package: they are parameters, each free to raise.
\<close>

record builtins =
  int_of_str :: "string \<Rightarrow> error + int"
  int_of_float :: "64 word \<Rightarrow> error + int"
  float_of_int :: "int \<Rightarrow> error + 64 word"
  float_of_str :: "string \<Rightarrow> error + 64 word"
  str_of_int :: "int \<Rightarrow> error + string"
  str_of_float :: "64 word \<Rightarrow> error + string"

text \<open>
  \<^verbatim>\<open>bool(x)\<close> of a float is \<^verbatim>\<open>x != 0.0\<close>: false on the two zeros (every bit but the sign
  clear), true on everything else, NaN included.
\<close>

definition bool_of_float :: "64 word \<Rightarrow> bool" where
  "bool_of_float w = (take_bit 63 w \<noteq> 0)"

definition float_one :: "64 word" where
  "float_one = 0x3FF0000000000000"

definition float_zero :: "64 word" where
  "float_zero = 0"

text \<open>
  \<^verbatim>\<open>str.lower\<close> is a builtin as well, with the case mapping of Unicode behind it: every
  function below that calls it takes it as its parameter \<open>lower\<close>, and what is proved
  holds for whatever function stands there. \<open>ascii_lower\<close> is \<^verbatim>\<open>str.lower\<close> on the strings
  of ASCII characters (the letters A to Z move to a to z, every other ASCII character
  stays); it stands for \<open>lower\<close> only where the model is run on an ASCII input.
\<close>

definition ascii_lower_char :: "char \<Rightarrow> char" where
  "ascii_lower_char c =
     (if CHR ''A'' \<le> c \<and> c \<le> CHR ''Z'' then char_of (of_char c + (32::nat)) else c)"

definition ascii_lower :: "string \<Rightarrow> string" where
  "ascii_lower s = map ascii_lower_char s"

text \<open>\<^verbatim>\<open>sep.join(xs)\<close>.\<close>

fun join :: "string \<Rightarrow> string list \<Rightarrow> string" where
  "join sep [] = []"
| "join sep [x] = x"
| "join sep (x # y # ys) = x @ sep @ join sep (y # ys)"

subsection \<open>Option\<close>

datatype OptionType = OT_str | OT_int | OT_bool | OT_float

record Option =
  name :: string
  default :: "OptionValue option"
  type :: OptionType
  desc :: "string option"
  label :: string
  is_required :: bool

text \<open>
  \<^verbatim>\<open>Option.__init__\<close>. \<^verbatim>\<open>type or OptionType.str\<close>: a member of a plain \<^verbatim>\<open>Enum\<close> is truthy,
  so only \<^verbatim>\<open>None\<close> gives the string type. \<^verbatim>\<open>label or name\<close>: \<^verbatim>\<open>None\<close> and the empty string
  are falsy.
\<close>

definition Option_init ::
  "string \<Rightarrow> OptionType option \<Rightarrow> OptionValue option \<Rightarrow> string option \<Rightarrow> string option \<Rightarrow> bool
     \<Rightarrow> Option" where
  "Option_init name_arg type_arg default_arg desc_arg label_arg is_required_arg =
     \<lparr> name = name_arg,
       default = default_arg,
       type = (case type_arg of None \<Rightarrow> OT_str | Some t \<Rightarrow> t),
       desc = desc_arg,
       label = (case label_arg of None \<Rightarrow> name_arg
                | Some l \<Rightarrow> if l = [] then name_arg else l),
       is_required = is_required_arg \<rparr>"

subsection \<open>Coercions\<close>

definition TRUE_VALUES :: "string list" where
  "TRUE_VALUES = [''1'', ''true'', ''yes'', ''on'']"

definition FALSE_VALUES :: "string list" where
  "FALSE_VALUES = [''0'', ''false'', ''no'', ''off'']"

fun value_to_bool :: "OptionValue option \<Rightarrow> error + bool option" where
  "value_to_bool None = Inr None"
| "value_to_bool (Some (BoolV b)) = Inr (Some b)"
| "value_to_bool (Some (IntV i)) = Inr (Some (i \<noteq> 0))"
| "value_to_bool (Some (FloatV f)) = Inr (Some (bool_of_float f))"
| "value_to_bool (Some (StrV s)) =
     (if s \<in> set TRUE_VALUES then Inr (Some True)
      else if s \<in> set FALSE_VALUES then Inr (Some False)
      else Inl (ValueError None))"
| "value_to_bool (Some OtherV) = Inl (ValueError None)"

fun value_to_int :: "builtins \<Rightarrow> OptionValue option \<Rightarrow> error + int option" where
  "value_to_int B None = Inr None"
| "value_to_int B (Some (BoolV b)) = Inr (Some (if b then 1 else 0))"
| "value_to_int B (Some (IntV i)) = Inr (Some i)"
| "value_to_int B (Some (StrV s)) =
     (case int_of_str B s of Inl e \<Rightarrow> Inl e | Inr i \<Rightarrow> Inr (Some i))"
| "value_to_int B (Some (FloatV f)) =
     (case int_of_float B f of Inl e \<Rightarrow> Inl e | Inr i \<Rightarrow> Inr (Some i))"
| "value_to_int B (Some OtherV) = Inl (ValueError (Some OtherV))"

fun value_to_float :: "builtins \<Rightarrow> OptionValue option \<Rightarrow> error + 64 word option" where
  "value_to_float B None = Inr None"
| "value_to_float B (Some (BoolV b)) = Inr (Some (if b then float_one else float_zero))"
| "value_to_float B (Some (IntV i)) =
     (case float_of_int B i of Inl e \<Rightarrow> Inl e | Inr f \<Rightarrow> Inr (Some f))"
| "value_to_float B (Some (FloatV f)) = Inr (Some f)"
| "value_to_float B (Some (StrV s)) =
     (case float_of_str B s of Inl e \<Rightarrow> Inl e | Inr f \<Rightarrow> Inr (Some f))"
| "value_to_float B (Some OtherV) = Inl (ValueError None)"

fun value_to_string :: "builtins \<Rightarrow> OptionValue option \<Rightarrow> error + string option" where
  "value_to_string B None = Inr None"
| "value_to_string B (Some (BoolV b)) = Inr (Some (if b then ''true'' else ''false''))"
| "value_to_string B (Some (StrV s)) = Inr (Some s)"
| "value_to_string B (Some (IntV i)) =
     (case str_of_int B i of Inl e \<Rightarrow> Inl e | Inr s \<Rightarrow> Inr (Some s))"
| "value_to_string B (Some (FloatV f)) =
     (case str_of_float B f of Inl e \<Rightarrow> Inl e | Inr s \<Rightarrow> Inr (Some s))"
| "value_to_string B (Some OtherV) = Inl (ValueError None)"


subsection \<open>OptionDict\<close>

record OptionDict =
  dict :: "(string \<times> OptionValue option) list"
  options :: "(string \<times> Option) list"

text \<open>\<^verbatim>\<open>keymap = dict((key.lower(), key) for key in mapping)\<close>: a later key wins.\<close>

definition keymap ::
  "(string \<Rightarrow> string) \<Rightarrow> (string \<times> OptionValue) list \<Rightarrow> (string \<times> string) list" where
  "keymap lower mapping = fold (\<lambda>key km. AList.update (lower key) key km) (map fst mapping) []"

text \<open>The loop of \<^verbatim>\<open>OptionDict.__init__\<close> over the declared options, in their order.\<close>

fun init_options ::
  "(string \<Rightarrow> string) \<Rightarrow> (string \<times> OptionValue) list \<Rightarrow> (string \<times> string) list \<Rightarrow> Option list \<Rightarrow> OptionDict
     \<Rightarrow> error + OptionDict" where
  "init_options lower mapping km [] self = Inr self"
| "init_options lower mapping km (opt # opts) self =
     (let n = lower (name opt);
          self1 = self\<lparr>options := AList.update n opt (options self)\<rparr>
      in case map_of km n of
           Some key \<Rightarrow>
             (case map_of mapping key of
                None \<Rightarrow> Inl (KeyError key)
              | Some v \<Rightarrow>
                  init_options lower mapping km opts
                    (self1\<lparr>dict := AList.update n (Some v) (dict self1)\<rparr>))
         | None \<Rightarrow>
             if is_required opt then Inl (OptionRequiredError n)
             else (case default opt of
                     Some v \<Rightarrow>
                       init_options lower mapping km opts
                         (self1\<lparr>dict := AList.update n (Some v) (dict self1)\<rparr>)
                   | None \<Rightarrow> init_options lower mapping km opts self1))"

text \<open>
  \<^verbatim>\<open>extra_keys = set(mapping.keys()) - set(self._dict.keys())\<close>: the keys of the mapping as
  they are written, against the lowercased keys of the dictionary.
\<close>

definition extra_keys :: "(string \<times> OptionValue) list \<Rightarrow> OptionDict \<Rightarrow> string set" where
  "extra_keys mapping self = set (map fst mapping) - set (map fst (dict self))"

definition OptionDict_init ::
  "(string \<Rightarrow> string) \<Rightarrow> (string \<times> OptionValue) list \<Rightarrow> Option list \<Rightarrow> error + OptionDict" where
  "OptionDict_init lower mapping opts =
     (case init_options lower mapping (keymap lower mapping) opts \<lparr>dict = [], options = []\<rparr> of
        Inl e \<Rightarrow> Inl e
      | Inr self \<Rightarrow>
          if extra_keys mapping self \<noteq> {}
          then Inl (ConfigurationError
                 (''Unknown options: '' @ join '', '' (sorted_list_of_set (extra_keys mapping self))))
          else Inr self)"

text \<open>\<^verbatim>\<open>__setitem__\<close>: the error, and the dictionary as it was.\<close>

definition setitem :: "OptionDict \<Rightarrow> string \<Rightarrow> OptionValue option \<Rightarrow> (error + unit) \<times> OptionDict" where
  "setitem self key v = (Inl (InternalError ''OptionDictionary is immutable''), self)"




subsection \<open>ExtensionRegistry\<close>

text \<open>
  One catalog: its name (the extension-point type), the classes registered by name and the
  modules to load by name. A class is a value of the type parameter.
\<close>

record 'c ExtensionRegistry =
  name' :: string
  classes :: "(string \<times> 'c) list"
  modules :: "(string \<times> string) list"

definition ExtensionRegistry_init :: "string \<Rightarrow> 'c ExtensionRegistry" where
  "ExtensionRegistry_init n = \<lparr>name' = n, classes = [], modules = []\<rparr>"

text \<open>\<^verbatim>\<open>register\<close>, with its assertion \<^verbatim>\<open>issubclass(extension, Extensible)\<close> as a parameter.\<close>

definition register ::
  "('c \<Rightarrow> bool) \<Rightarrow> 'c ExtensionRegistry \<Rightarrow> string \<Rightarrow> 'c \<Rightarrow> error + 'c ExtensionRegistry" where
  "register is_extensible self n extension_arg =
     (if is_extensible extension_arg
      then Inr (self\<lparr>classes := AList.update n extension_arg (classes self)\<rparr>)
      else Inl AssertionError)"

definition register_lazy :: "'c ExtensionRegistry \<Rightarrow> string \<Rightarrow> string \<Rightarrow> 'c ExtensionRegistry" where
  "register_lazy self n module = self\<lparr>modules := AList.update n module (modules self)\<rparr>"

text \<open>
  \<^verbatim>\<open>extension\<close>. \<^verbatim>\<open>import_module\<close> runs the code of another module: it is a parameter that
  takes the module's name and the catalog, and returns the catalog as the import left it,
  with the exception when the import raised.
\<close>

definition unknown_extension :: "string \<Rightarrow> string \<Rightarrow> string" where
  "unknown_extension n t =
     ''Unknown extension '' @ [CHR 0x27] @ n @ [CHR 0x27] @ '' of type '' @ [CHR 0x27] @ t @ [CHR 0x27]"

definition extension ::
  "(string \<Rightarrow> 'c ExtensionRegistry \<Rightarrow> (error + unit) \<times> 'c ExtensionRegistry)
     \<Rightarrow> 'c ExtensionRegistry \<Rightarrow> string \<Rightarrow> (error + 'c) \<times> 'c ExtensionRegistry" where
  "extension import_module self n =
     (let (loaded, self1) =
            (case map_of (classes self) n of
               Some c \<Rightarrow> (Inr (), self)
             | None \<Rightarrow>
                 (case map_of (modules self) n of
                    Some m \<Rightarrow> import_module m self
                  | None \<Rightarrow> (Inr (), self)))
      in case loaded of
           Inl e \<Rightarrow> (Inl e, self1)
         | Inr u \<Rightarrow>
             (case map_of (classes self1) n of
                Some c \<Rightarrow> (Inr c, self1)
              | None \<Rightarrow> (Inl (InternalError (unknown_extension n (name' self1))), self1)))"

text \<open>\<^verbatim>\<open>registered_names\<close>: \<^verbatim>\<open>sorted(list(set(classes.keys()) | set(modules.keys())))\<close>.\<close>

definition registered_names :: "'c ExtensionRegistry \<Rightarrow> string list" where
  "registered_names self =
     sorted_list_of_set (set (map fst (classes self)) \<union> set (map fst (modules self)))"

section \<open>Properties\<close>

subsection \<open>Option and the coercions\<close>

text \<open>
  C10. An Option constructed without a type is string-typed, and an Option constructed
  without a label has its name as its label; \<^const>\<open>Option_init\<close> is total, so neither
  case is an error.
\<close>

theorem Option_init_defaults:
  "type (Option_init n None d ds l r) = OT_str \<and> label (Option_init n t d ds None r) = n"
  by (simp add: Option_init_def)

lemma bit_sign_only: "bit (push_bit m 1 :: 64 word) n = (n < 64 \<and> n = m)"
  by (auto simp: bit_simps)

lemma take_bit_63_zero:
  "(take_bit 63 w = (0 :: 64 word)) = (w = 0 \<or> w = push_bit 63 1)"
proof -
  have low: "(take_bit 63 w = 0) = (\<forall>n<63. \<not> bit w n)"
    by (auto simp: bit_eq_iff bit_take_bit_iff)
  show ?thesis
  proof
    assume "take_bit 63 w = 0"
    with low have z: "\<forall>n<63. \<not> bit w n" by simp
    show "w = 0 \<or> w = push_bit 63 1"
    proof (cases "bit w 63")
      case True
      have "bit w n = bit (push_bit 63 1 :: 64 word) n" for n
        unfolding bit_sign_only [of 63 n]
        using z True bit_imp_le_length [of w n] by (cases "n < 63"; cases "n = 63") auto
      then have "w = push_bit 63 1" by (rule bit_eqI)
      then show ?thesis ..
    next
      case False
      have "bit w n = bit (0 :: 64 word) n" for n
        using z False bit_imp_le_length [of w n] by (cases "n < 63"; cases "n = 63") auto
      then have "w = 0" by (rule bit_eqI)
      then show ?thesis ..
    qed
  next
    assume "w = 0 \<or> w = push_bit 63 1"
    then have "\<forall>n<63. \<not> bit w n"
    proof
      assume "w = 0" then show ?thesis by simp
    next
      assume w: "w = push_bit 63 1"
      show ?thesis unfolding w bit_sign_only by simp
    qed
    with low show "take_bit 63 w = 0" by simp
  qed
qed

lemma bool_of_float_zeros: "bool_of_float w = (w \<noteq> 0 \<and> w \<noteq> 0x8000000000000000)"
proof -
  have "(push_bit 63 1 :: 64 word) = 0x8000000000000000" by simp
  with take_bit_63_zero [of w] show ?thesis by (simp add: bool_of_float_def)
qed

text \<open>
  C4. \<^const>\<open>value_to_bool\<close> is the identity on booleans, the test against zero on an
  integer and on a float (a float is zero when its bit pattern is that of \<open>0.0\<close> or of
  \<open>-0.0\<close>), true on exactly the four strings of \<^const>\<open>TRUE_VALUES\<close>, false on exactly the
  four of \<^const>\<open>FALSE_VALUES\<close>, and a \<open>ValueError\<close> on every other string. The membership
  is case-sensitive.
\<close>

theorem value_to_bool_table:
  "value_to_bool (Some (BoolV b)) = Inr (Some b) \<and>
   value_to_bool (Some (IntV i)) = Inr (Some (i \<noteq> 0)) \<and>
   value_to_bool (Some (FloatV f)) = Inr (Some (f \<noteq> 0 \<and> f \<noteq> 0x8000000000000000)) \<and>
   (value_to_bool (Some (StrV s)) = Inr (Some True)) = (s \<in> {''1'', ''true'', ''yes'', ''on''}) \<and>
   (value_to_bool (Some (StrV s)) = Inr (Some False)) = (s \<in> {''0'', ''false'', ''no'', ''off''}) \<and>
   (value_to_bool (Some (StrV s)) = Inl (ValueError None)) =
     (s \<notin> {''1'', ''true'', ''yes'', ''on'', ''0'', ''false'', ''no'', ''off''})"
  by (auto simp: TRUE_VALUES_def FALSE_VALUES_def bool_of_float_zeros)

theorem value_to_bool_table_witness:
  "value_to_bool (Some (StrV ''yes'')) = Inr (Some True) \<and>
   value_to_bool (Some (StrV ''off'')) = Inr (Some False) \<and>
   value_to_bool (Some (StrV ''maybe'')) = Inl (ValueError None) \<and>
   value_to_bool (Some (StrV ''YES'')) = Inl (ValueError None) \<and>
   value_to_bool (Some (IntV 0)) = Inr (Some False) \<and>
   value_to_bool (Some (IntV (- 3))) = Inr (Some True) \<and>
   value_to_bool (Some (FloatV 0x8000000000000000)) = Inr (Some False) \<and>
   value_to_bool (Some (FloatV 0x3FF0000000000000)) = Inr (Some True)"
  using value_to_bool_table [where s = "''yes''" and i = 0 and f = "0x8000000000000000"]
    value_to_bool_table [where s = "''off''" and i = "- 3" and f = "0x3FF0000000000000"]
    value_to_bool_table [where s = "''maybe''"] value_to_bool_table [where s = "''YES''"]
  by simp

text \<open>
  C5. Each of the four coercions returns \<open>None\<close> on \<open>None\<close>, whatever the builtins do.
\<close>

theorem coercions_None:
  "value_to_bool None = Inr None \<and> value_to_int B None = Inr None \<and>
   value_to_float B None = Inr None \<and> value_to_string B None = Inr None"
  by simp

subsection \<open>OptionDict\<close>

text \<open>
  C7. Item assignment on any OptionDict, with any key and any value, raises
  \<open>InternalError\<close> and leaves the dictionary as it was.
\<close>

theorem setitem_immutable:
  "fst (setitem self key v) = Inl (InternalError ''OptionDictionary is immutable'') \<and>
   snd (setitem self key v) = self"
  by (simp add: setitem_def)

text \<open>
  C1. The schema \<^verbatim>\<open>[Option("Indent", INT)]\<close> with the raw mapping \<^verbatim>\<open>{"INDENT": "8"}\<close>: the
  key is found through the keymap and stored under \<^verbatim>\<open>"indent"\<close>, then the unknown-key check
  compares \<^verbatim>\<open>"INDENT"\<close> as written with \<^verbatim>\<open>"indent"\<close> and rejects it. Both strings are
  ASCII, where \<^const>\<open>ascii_lower\<close> is \<^verbatim>\<open>str.lower\<close>.
\<close>

theorem OptionDict_init_uppercase_key:
  "OptionDict_init ascii_lower [(''INDENT'', StrV ''8'')]
     [Option_init ''Indent'' (Some OT_int) None None None False]
     = Inl (ConfigurationError ''Unknown options: INDENT'')"
  by code_simp

subsection \<open>The keymap and the loop over the declared options\<close>

lemma ascii_lower_char_idem: "ascii_lower_char (ascii_lower_char c) = ascii_lower_char c"
  by (auto simp: ascii_lower_char_def less_eq_char_def)

lemma ascii_lower_idem: "ascii_lower (ascii_lower s) = ascii_lower s"
  by (simp add: ascii_lower_def ascii_lower_char_idem)

lemma keymap_fold_None:
  "(map_of (fold (\<lambda>key km. AList.update (lower key) key km) ks acc) n = None) =
     (n \<notin> lower ` set ks \<and> map_of acc n = None)"
  by (induction ks arbitrary: acc) (auto simp: update_conv')

lemma keymap_fold_Some:
  "map_of (fold (\<lambda>key km. AList.update (lower key) key km) ks acc) n = Some k \<Longrightarrow>
     (k \<in> set ks \<and> lower k = n) \<or> map_of acc n = Some k"
proof (induction ks arbitrary: acc)
  case Nil
  then show ?case by simp
next
  case (Cons a ks)
  from Cons.prems have
    "map_of (fold (\<lambda>key km. AList.update (lower key) key km) ks (AList.update (lower a) a acc)) n = Some k"
    by simp
  from Cons.IH [OF this] show ?case
    by (auto simp: update_conv' split: if_splits)
qed

lemma keymap_None: "(map_of (keymap lower m) n = None) = (n \<notin> lower ` fst ` set m)"
  by (simp add: keymap_def keymap_fold_None)

lemma keymap_Some:
  assumes "map_of (keymap lower m) n = Some k"
  shows "k \<in> fst ` set m \<and> lower k = n"
  using keymap_fold_Some [of lower "map fst m" "[]" n k] assms by (simp add: keymap_def)

lemma keymap_value:
  assumes "map_of (keymap lower m) n = Some k"
  shows "\<exists>v. map_of m k = Some v"
proof -
  have "k \<in> fst ` set m" using keymap_Some [OF assms] by simp
  then show ?thesis by (metis domD dom_map_of_conv_image_fst)
qed

lemma init_options_required:
  assumes "\<exists>opt\<in>set opts. is_required opt \<and> lower (name opt) \<notin> lower ` fst ` set raw"
  shows "\<exists>opt. find (\<lambda>opt. is_required opt \<and> lower (name opt) \<notin> lower ` fst ` set raw) opts = Some opt \<and>
           init_options lower raw (keymap lower raw) opts self
             = Inl (OptionRequiredError (lower (name opt)))"
  using assms
proof (induction opts arbitrary: self)
  case Nil
  then show ?case by simp
next
  case (Cons a opts)
  show ?case
  proof (cases "map_of (keymap lower raw) (lower (name a))")
    case None
    then have absent: "lower (name a) \<notin> lower ` fst ` set raw" by (simp add: keymap_None)
    show ?thesis
    proof (cases "is_required a")
      case True
      with None absent show ?thesis by simp
    next
      case False
      with Cons.prems have rest: "\<exists>opt\<in>set opts. is_required opt \<and> lower (name opt) \<notin> lower ` fst ` set raw"
        by auto
      from Cons.IH [OF rest] None False show ?thesis
        by (simp add: Let_def split: option.splits)
    qed
  next
    case (Some key)
    then have present: "lower (name a) \<in> lower ` fst ` set raw"
      using keymap_None [of lower raw "lower (name a)"] by simp
    obtain v where v: "map_of raw key = Some v" using keymap_value [OF Some] by blast
    from Cons.prems present have rest: "\<exists>opt\<in>set opts. is_required opt \<and> lower (name opt) \<notin> lower ` fst ` set raw"
      by auto
    from Cons.IH [OF rest] Some v present show ?thesis
      by (simp add: Let_def)
  qed
qed

lemma init_options_total:
  assumes "\<forall>opt\<in>set opts. is_required opt \<longrightarrow> lower (name opt) \<in> lower ` fst ` set raw"
  shows "\<exists>d. init_options lower raw (keymap lower raw) opts self = Inr d"
  using assms
proof (induction opts arbitrary: self)
  case Nil
  then show ?case by simp
next
  case (Cons a opts)
  then have rest: "\<forall>opt\<in>set opts. is_required opt \<longrightarrow> lower (name opt) \<in> lower ` fst ` set raw"
    by simp
  show ?case
  proof (cases "map_of (keymap lower raw) (lower (name a))")
    case None
    then have "lower (name a) \<notin> lower ` fst ` set raw" by (simp add: keymap_None)
    with Cons.prems have "\<not> is_required a" by auto
    with None Cons.IH [OF rest] show ?thesis
      by (simp add: Let_def split: option.splits)
  next
    case (Some key)
    obtain v where "map_of raw key = Some v" using keymap_value [OF Some] by blast
    with Some Cons.IH [OF rest] show ?thesis by (simp add: Let_def)
  qed
qed

text \<open>
  The keys of the dictionary after the loop: the lowercased names of the options that found
  a key in the raw mapping or have a default.
\<close>

lemma init_options_dict_keys:
  assumes "init_options lower raw (keymap lower raw) opts self = Inr d"
  shows "fst ` set (dict d) =
           fst ` set (dict self) \<union>
           (\<lambda>opt. lower (name opt)) `
             {opt \<in> set opts. lower (name opt) \<in> lower ` fst ` set raw \<or> default opt \<noteq> None}"
  using assms
proof (induction opts arbitrary: self)
  case Nil
  then show ?case by simp
next
  case (Cons a opts)
  let ?n = "lower (name a)"
  let ?stored = "\<lambda>os. (\<lambda>opt. lower (name opt)) `
             {opt \<in> set os. lower (name opt) \<in> lower ` fst ` set raw \<or> default opt \<noteq> None}"
  let ?s1 = "self\<lparr>options := AList.update ?n a (options self)\<rparr>"
  let ?s2 = "\<lambda>v. ?s1\<lparr>dict := AList.update ?n (Some v) (dict ?s1)\<rparr>"
  have split: "?stored (a # opts) =
      (if ?n \<in> lower ` fst ` set raw \<or> default a \<noteq> None then insert ?n (?stored opts)
       else ?stored opts)"
    by auto
  show ?case
  proof (cases "?n \<in> lower ` fst ` set raw \<or> default a \<noteq> None")
    case True
    have "\<exists>v. init_options lower raw (keymap lower raw) opts (?s2 v) = Inr d"
    proof (cases "map_of (keymap lower raw) ?n")
      case None
      then have "?n \<notin> lower ` fst ` set raw" by (simp add: keymap_None)
      with True obtain v where "default a = Some v" by auto
      with None Cons.prems show ?thesis
        by (auto simp: Let_def split: if_splits)
    next
      case (Some key)
      obtain v where "map_of raw key = Some v" using keymap_value [OF Some] by blast
      with Some Cons.prems show ?thesis
        by (auto simp: Let_def)
    qed
    then obtain v where run: "init_options lower raw (keymap lower raw) opts (?s2 v) = Inr d"
      by blast
    have "fst ` set (dict (?s2 v)) = insert ?n (fst ` set (dict self))"
      by (simp add: dom_update)
    with Cons.IH [OF run] split True show ?thesis by auto
  next
    case False
    then have "map_of (keymap lower raw) ?n = None" and "default a = None"
      by (simp_all add: keymap_None)
    with Cons.prems have run: "init_options lower raw (keymap lower raw) opts ?s1 = Inr d"
      by (simp add: Let_def split: if_splits)
    from Cons.IH [OF run] split False show ?thesis by auto
  qed
qed

lemma join_spelled_out:
  "xs \<noteq> [] \<Longrightarrow> join sep xs = concat (map (\<lambda>x. x @ sep) (butlast xs)) @ last xs"
  by (induction sep xs rule: join.induct) simp_all

text \<open>
  C2. When some declared option is required and its lowercased name is not among the
  lowercased keys of the raw mapping, construction fails with \<open>OptionRequiredError\<close> and
  produces no dictionary. The error carries the lowercased name of the first such option in
  the order of the schema: the missing option itself when it is the only one. This holds
  for every function that stands for \<^verbatim>\<open>str.lower\<close>.
\<close>

theorem OptionDict_init_required_missing:
  assumes "opt \<in> set opts" and "is_required opt"
    and "lower (name opt) \<notin> lower ` fst ` set raw"
  shows "\<exists>m. find (\<lambda>x. is_required x \<and> lower (name x) \<notin> lower ` fst ` set raw) opts = Some m \<and>
           m \<in> set opts \<and> is_required m \<and> lower (name m) \<notin> lower ` fst ` set raw \<and>
           OptionDict_init lower raw opts = Inl (OptionRequiredError (lower (name m)))"
proof -
  from assms have "\<exists>x\<in>set opts. is_required x \<and> lower (name x) \<notin> lower ` fst ` set raw"
    by blast
  from init_options_required [OF this, of "\<lparr>dict = [], options = []\<rparr>"]
  obtain m where f: "find (\<lambda>x. is_required x \<and> lower (name x) \<notin> lower ` fst ` set raw) opts = Some m"
    and r: "init_options lower raw (keymap lower raw) opts \<lparr>dict = [], options = []\<rparr>
              = Inl (OptionRequiredError (lower (name m)))"
    by blast
  from f have "m \<in> set opts \<and> is_required m \<and> lower (name m) \<notin> lower ` fst ` set raw"
    by (auto simp: find_Some_iff)
  with f r show ?thesis by (simp add: OptionDict_init_def)
qed

theorem OptionDict_init_required_missing_witness:
  "is_required (Option_init ''x'' (Some OT_str) None None None True) \<and>
   OptionDict_init ascii_lower [] [Option_init ''x'' (Some OT_str) None None None True]
     = Inl (OptionRequiredError ''x'') \<and>
   OptionDict_init ascii_lower [(''a'', IntV 1)]
     [Option_init ''a'' (Some OT_int) None None None False,
      Option_init ''Level'' (Some OT_int) None None None True]
     = Inl (OptionRequiredError ''level'')"
proof -
  let ?x = "Option_init ''x'' (Some OT_str) None None None True"
  let ?a = "Option_init ''a'' (Some OT_int) None None None False"
  let ?l = "Option_init ''Level'' (Some OT_int) None None None True"
  have r: "is_required ?x" by (simp add: Option_init_def)
  have nx: "ascii_lower (name ?x) = ''x''" by code_simp
  have fx: "find (\<lambda>x. is_required x \<and> ascii_lower (name x) \<notin> ascii_lower ` fst ` set []) [?x] = Some ?x"
    using r by simp
  have ex: "OptionDict_init ascii_lower [] [?x] = Inl (OptionRequiredError ''x'')"
    using OptionDict_init_required_missing [of ?x "[?x]" ascii_lower "[]"] r fx nx by simp
  have rl: "is_required ?l" by (simp add: Option_init_def)
  have nl: "ascii_lower (name ?l) = ''level''" by code_simp
  have ml: "ascii_lower (name ?l) \<notin> ascii_lower ` fst ` set [(''a'', IntV 1)]" by code_simp
  have fl: "find (\<lambda>x. is_required x \<and> ascii_lower (name x) \<notin> ascii_lower ` fst ` set [(''a'', IntV 1)])
              [?a, ?l] = Some ?l"
    using rl ml by (simp add: Option_init_def)
  have el: "OptionDict_init ascii_lower [(''a'', IntV 1)] [?a, ?l] = Inl (OptionRequiredError ''level'')"
    using OptionDict_init_required_missing [of ?l "[?a, ?l]" ascii_lower "[(''a'', IntV 1)]"] rl ml fl nl
    by simp
  from r ex el show ?thesis by (intro conjI)
qed

text \<open>
  C3. Let \<open>lower\<close> give, on the name of every declared option, a string that it leaves as
  it is. When no required option is missing and the raw mapping has a key that matches no
  declared option, construction fails with a \<open>ConfigurationError\<close>. Its message is
  \<^verbatim>\<open>Unknown options: \<close> followed by the keys of a list, each but the last followed by a
  comma and a space. The list is sorted, has no duplicate, and holds exactly the keys of the
  raw mapping that are not the lowercased name of a declared option; so it holds every key
  that matches no declared option: all offenders at once, not the first one.
\<close>

theorem OptionDict_init_unknown_options:
  assumes "\<forall>opt\<in>set opts. lower (lower (name opt)) = lower (name opt)"
    and "\<forall>opt\<in>set opts. is_required opt \<longrightarrow> lower (name opt) \<in> lower ` fst ` set raw"
    and "k \<in> fst ` set raw" and "\<forall>opt\<in>set opts. lower (name opt) \<noteq> lower k"
  shows "\<exists>xs. OptionDict_init lower raw opts
                 = Inl (ConfigurationError
                     (''Unknown options: '' @ concat (map (\<lambda>key. key @ '', '') (butlast xs)) @ last xs)) \<and>
              sorted xs \<and> distinct xs \<and>
              set xs = {key \<in> fst ` set raw. \<forall>opt\<in>set opts. lower (name opt) \<noteq> key} \<and>
              {key \<in> fst ` set raw. \<forall>opt\<in>set opts. lower (name opt) \<noteq> lower key} \<subseteq> set xs"
proof -
  let ?e = "\<lparr>dict = [], options = []\<rparr>"
  let ?X = "{key \<in> fst ` set raw. \<forall>opt\<in>set opts. lower (name opt) \<noteq> key}"
  obtain d where d: "init_options lower raw (keymap lower raw) opts ?e = Inr d"
    using init_options_total [OF assms(2)] by blast
  have keys: "fst ` set (dict d) = (\<lambda>opt. lower (name opt)) `
      {opt \<in> set opts. lower (name opt) \<in> lower ` fst ` set raw \<or> default opt \<noteq> None}"
    using init_options_dict_keys [OF d] by simp
  have extra: "extra_keys raw d = ?X"
  proof (rule set_eqI)
    fix key
    show "(key \<in> extra_keys raw d) = (key \<in> ?X)"
    proof (cases "key \<in> fst ` set raw")
      case False
      then show ?thesis by (simp add: extra_keys_def)
    next
      case True
      have "(key \<in> fst ` set (dict d)) = (\<exists>opt\<in>set opts. lower (name opt) = key)"
      proof
        assume "key \<in> fst ` set (dict d)"
        with keys show "\<exists>opt\<in>set opts. lower (name opt) = key" by auto
      next
        assume "\<exists>opt\<in>set opts. lower (name opt) = key"
        then obtain opt where o: "opt \<in> set opts" and n: "lower (name opt) = key" by blast
        from o assms(1) n have "lower key = key" by auto
        with True have "key \<in> lower ` fst ` set raw" by (metis imageI)
        with o n have "opt \<in> {opt \<in> set opts. lower (name opt) \<in> lower ` fst ` set raw \<or> default opt \<noteq> None}"
          by simp
        then have "lower (name opt) \<in> fst ` set (dict d)" unfolding keys by (rule imageI)
        with n show "key \<in> fst ` set (dict d)" by simp
      qed
      with True show ?thesis by (auto simp: extra_keys_def)
    qed
  qed
  have unk: "{key \<in> fst ` set raw. \<forall>opt\<in>set opts. lower (name opt) \<noteq> lower key} \<subseteq> ?X"
  proof
    fix key
    assume "key \<in> {key \<in> fst ` set raw. \<forall>opt\<in>set opts. lower (name opt) \<noteq> lower key}"
    then have in_raw: "key \<in> fst ` set raw"
      and no: "\<forall>opt\<in>set opts. lower (name opt) \<noteq> lower key" by auto
    have "\<forall>opt\<in>set opts. lower (name opt) \<noteq> key"
    proof
      fix opt assume o: "opt \<in> set opts"
      show "lower (name opt) \<noteq> key"
      proof
        assume "lower (name opt) = key"
        with o assms(1) have "lower (name opt) = lower key" by auto
        with o no show False by blast
      qed
    qed
    with in_raw show "key \<in> ?X" by simp
  qed
  with assms(3,4) have ne: "?X \<noteq> {}" by auto
  have fin: "finite ?X" by simp
  let ?xs = "sorted_list_of_set ?X"
  have xs_ne: "?xs \<noteq> []" using ne fin by simp
  have "OptionDict_init lower raw opts
          = Inl (ConfigurationError (''Unknown options: '' @ join '', '' ?xs))"
    using d ne by (simp add: OptionDict_init_def extra)
  then have "OptionDict_init lower raw opts
          = Inl (ConfigurationError
              (''Unknown options: '' @ concat (map (\<lambda>key. key @ '', '') (butlast ?xs)) @ last ?xs))"
    by (simp only: join_spelled_out [OF xs_ne])
  moreover have "sorted ?xs" and "distinct ?xs" by simp_all
  moreover have "set ?xs = ?X" using fin by simp
  ultimately show ?thesis using unk by blast
qed

theorem OptionDict_init_unknown_options_witness:
  "OptionDict_init ascii_lower
     [(''x'', StrV ''1''), (''z'', StrV ''3''), (''y'', StrV ''2''), (''w'', StrV ''4'')]
     [Option_init ''x'' (Some OT_str) None None None False]
     = Inl (ConfigurationError ''Unknown options: w, y, z'') \<and>
   (\<exists>xs. OptionDict_init ascii_lower
            [(''x'', StrV ''1''), (''z'', StrV ''3''), (''y'', StrV ''2''), (''w'', StrV ''4'')]
            [Option_init ''x'' (Some OT_str) None None None False]
            = Inl (ConfigurationError
                (''Unknown options: '' @ concat (map (\<lambda>key. key @ '', '') (butlast xs)) @ last xs)) \<and>
          sorted xs \<and> distinct xs \<and>
          set xs = {key \<in> fst ` set [(''x'', StrV ''1''), (''z'', StrV ''3''), (''y'', StrV ''2''),
                                    (''w'', StrV ''4'')].
                     \<forall>opt\<in>set [Option_init ''x'' (Some OT_str) None None None False].
                       ascii_lower (name opt) \<noteq> key} \<and>
          {key \<in> fst ` set [(''x'', StrV ''1''), (''z'', StrV ''3''), (''y'', StrV ''2''),
                            (''w'', StrV ''4'')].
             \<forall>opt\<in>set [Option_init ''x'' (Some OT_str) None None None False].
               ascii_lower (name opt) \<noteq> ascii_lower key} \<subseteq> set xs)"
proof -
  let ?raw = "[(''x'', StrV ''1''), (''z'', StrV ''3''), (''y'', StrV ''2''), (''w'', StrV ''4'')]"
  let ?opts = "[Option_init ''x'' (Some OT_str) None None None False]"
  have lx: "ascii_lower ''x'' = ''x''" and ly: "ascii_lower ''y'' = ''y''"
    by code_simp+
  have h0: "\<forall>opt\<in>set ?opts. ascii_lower (ascii_lower (name opt)) = ascii_lower (name opt)"
    by (simp add: ascii_lower_idem)
  have h1: "\<forall>opt\<in>set ?opts. is_required opt \<longrightarrow> ascii_lower (name opt) \<in> ascii_lower ` fst ` set ?raw"
    by (simp add: Option_init_def)
  have h2: "''y'' \<in> fst ` set ?raw" by simp
  have h3: "\<forall>opt\<in>set ?opts. ascii_lower (name opt) \<noteq> ascii_lower ''y''"
    by (simp add: Option_init_def lx ly)
  have e: "OptionDict_init ascii_lower ?raw ?opts = Inl (ConfigurationError ''Unknown options: w, y, z'')"
    by code_simp
  show ?thesis
    by (rule conjI [OF e OptionDict_init_unknown_options [OF h0 h1 h2 h3]])
qed

subsection \<open>Defaults and casted\<close>











subsection \<open>ExtensionRegistry\<close>

text \<open>
  C9. In every state of a catalog \<^const>\<open>registered_names\<close> is sorted, has no duplicate and
  holds exactly the names of \<open>classes\<close> and of \<open>modules\<close>.
\<close>

theorem registered_names_sorted_union:
  "sorted (registered_names r) \<and> distinct (registered_names r) \<and>
   set (registered_names r) = fst ` set (classes r) \<union> fst ` set (modules r)"
  by (simp add: registered_names_def)

text \<open>
  C8. \<^const>\<open>extension\<close> on a name present in \<open>classes\<close> returns that class and leaves the
  catalog as it was, for every \<open>import_module\<close>: no load happens. So it is right after
  \<^const>\<open>register\<close>, and after a load that registered the name. On a name absent from
  \<open>classes\<close> and from \<open>modules\<close> it fails with an \<open>InternalError\<close>, again for every
  \<open>import_module\<close>. On a name absent from \<open>classes\<close> and present in \<open>modules\<close> the module
  is imported; when the import returns and the name is still absent, the same
  \<open>InternalError\<close> is raised. Its message is \<^verbatim>\<open>Unknown extension '\<close>, the name looked up,
  \<^verbatim>\<open>' of type '\<close>, the name of the catalog, and a closing quote.
\<close>

theorem extension_lookup:
  "(map_of (classes r) n = Some c \<longrightarrow> extension imp r n = (Inr c, r)) \<and>
   (register ok r n c = Inr r' \<longrightarrow> extension imp r' n = (Inr c, r')) \<and>
   (map_of (classes r) n = None \<and> map_of (modules r) n = None \<longrightarrow>
      extension imp r n = (Inl (InternalError (
         (''Unknown extension '' @ [CHR 0x27] @ n @ [CHR 0x27] @ '' of type '' @ [CHR 0x27] @ name' r @ [CHR 0x27]))), r)) \<and>
   (map_of (classes r) n = None \<and> map_of (modules r) n = Some m \<and> imp m r = (Inr (), r1) \<and>
    map_of (classes r1) n = None \<longrightarrow>
      extension imp r n = (Inl (InternalError (
         (''Unknown extension '' @ [CHR 0x27] @ n @ [CHR 0x27] @ '' of type '' @ [CHR 0x27] @ name' r1 @ [CHR 0x27]))), r1)) \<and>
   (map_of (classes r) n = None \<and> map_of (modules r) n = Some m \<and> imp m r = (Inr (), r1) \<and>
    map_of (classes r1) n = Some c \<longrightarrow>
      extension imp r n = (Inr c, r1) \<and> extension imp2 r1 n = (Inr c, r1))"
  by (auto simp: extension_def register_def unknown_extension_def update_conv' split: if_splits)

theorem extension_lookup_witness:
  "extension (\<lambda>m r. (Inl (HostError m), r))
     \<lparr>name' = ''printer'', classes = [(''pretty'', 1::nat)], modules = [(''pretty'', ''pkg.pretty'')]\<rparr>
     ''pretty''
     = (Inr 1, \<lparr>name' = ''printer'', classes = [(''pretty'', 1)], modules = [(''pretty'', ''pkg.pretty'')]\<rparr>) \<and>
   extension (\<lambda>m r. (Inl (HostError m), r))
     \<lparr>name' = ''printer'', classes = [(''pretty'', 1::nat)], modules = []\<rparr> ''pretty''
     = (Inr 1, \<lparr>name' = ''printer'', classes = [(''pretty'', 1)], modules = []\<rparr>) \<and>
   extension (\<lambda>m r. (Inl (HostError m), r))
     \<lparr>name' = ''printer'', classes = ([]::(string \<times> nat) list), modules = []\<rparr> ''nope''
     = (Inl (InternalError (''Unknown extension 'nope' of type 'printer'' @ [CHR 0x27])),
        \<lparr>name' = ''printer'', classes = [], modules = []\<rparr>) \<and>
   extension (\<lambda>m r. (Inr (), r))
     \<lparr>name' = ''printer'', classes = ([]::(string \<times> nat) list), modules = [(''lost'', ''pkg.lost'')]\<rparr>
     ''lost''
     = (Inl (InternalError (''Unknown extension 'lost' of type 'printer'' @ [CHR 0x27])),
        \<lparr>name' = ''printer'', classes = [], modules = [(''lost'', ''pkg.lost'')]\<rparr>) \<and>
   extension (\<lambda>m r. (Inr (), r\<lparr>classes := AList.update ''pretty2'' 2 (classes r)\<rparr>))
     \<lparr>name' = ''printer'', classes = ([]::(string \<times> nat) list), modules = [(''pretty2'', ''pkg.p2'')]\<rparr>
     ''pretty2''
     = (Inr 2, \<lparr>name' = ''printer'', classes = [(''pretty2'', 2)], modules = [(''pretty2'', ''pkg.p2'')]\<rparr>) \<and>
   extension (\<lambda>m r. (Inl (HostError m), r))
     \<lparr>name' = ''printer'', classes = [(''pretty2'', 2::nat)], modules = [(''pretty2'', ''pkg.p2'')]\<rparr>
     ''pretty2''
     = (Inr 2, \<lparr>name' = ''printer'', classes = [(''pretty2'', 2)], modules = [(''pretty2'', ''pkg.p2'')]\<rparr>)"
proof -
  let ?fail = "\<lambda>m (r::nat ExtensionRegistry). (Inl (HostError m) :: error + unit, r)"
  let ?r1 = "\<lparr>name' = ''printer'', classes = [(''pretty'', 1::nat)], modules = [(''pretty'', ''pkg.pretty'')]\<rparr>"
  let ?r0 = "\<lparr>name' = ''printer'', classes = ([]::(string \<times> nat) list), modules = []\<rparr>"
  let ?rl = "\<lparr>name' = ''printer'', classes = ([]::(string \<times> nat) list), modules = [(''lost'', ''pkg.lost'')]\<rparr>"
  let ?rp = "\<lparr>name' = ''printer'', classes = ([]::(string \<times> nat) list), modules = [(''pretty2'', ''pkg.p2'')]\<rparr>"
  let ?rq = "\<lparr>name' = ''printer'', classes = [(''pretty2'', 2::nat)], modules = [(''pretty2'', ''pkg.p2'')]\<rparr>"
  let ?load = "\<lambda>m (r::nat ExtensionRegistry). (Inr () :: error + unit, r\<lparr>classes := AList.update ''pretty2'' 2 (classes r)\<rparr>)"
  let ?idle = "\<lambda>m (r::nat ExtensionRegistry). (Inr () :: error + unit, r)"
  have a: "extension ?fail ?r1 ''pretty'' = (Inr 1, ?r1)"
    using extension_lookup [where r = ?r1 and n = "''pretty''" and c = 1 and imp = ?fail] by simp
  have b: "extension ?fail \<lparr>name' = ''printer'', classes = [(''pretty'', 1::nat)], modules = []\<rparr> ''pretty''
            = (Inr 1, \<lparr>name' = ''printer'', classes = [(''pretty'', 1)], modules = []\<rparr>)"
    using extension_lookup [where ok = "\<lambda>c. True" and r = ?r0 and n = "''pretty''" and c = 1
        and r' = "\<lparr>name' = ''printer'', classes = [(''pretty'', 1::nat)], modules = []\<rparr>"
        and imp = ?fail]
    by (simp add: register_def)
  have c: "extension ?fail ?r0 ''nope'' = (Inl (InternalError (''Unknown extension 'nope' of type 'printer'' @ [CHR 0x27])), ?r0)"
    using extension_lookup [where r = ?r0 and n = "''nope''" and imp = ?fail] by simp
  have d: "extension ?idle ?rl ''lost'' = (Inl (InternalError (''Unknown extension 'lost' of type 'printer'' @ [CHR 0x27])), ?rl)"
    using extension_lookup [where r = ?rl and n = "''lost''" and imp = ?idle and m = "''pkg.lost''" and ?r1.0 = ?rl] by simp
  have e: "extension ?load ?rp ''pretty2'' = (Inr 2, ?rq) \<and> extension ?fail ?rq ''pretty2'' = (Inr 2, ?rq)"
    using extension_lookup [where r = ?rp and n = "''pretty2''" and c = 2 and imp = ?load and m = "''pkg.p2''" and ?r1.0 = ?rq and ?imp2.0 = ?fail] by simp
  from a b c d e show ?thesis by (intro conjI) (erule conjunct1 conjunct2 | assumption)+
qed

end
